theory Spec2Isabelle
  imports Complex_Main
begin

text \<open>
  A model of the two parts of the study assistant that carry logic: the quiz component
  (\<^verbatim>\<open>QuizGenerator\<close>), with its validation of the provider's payload and its
  question-by-question state, and the proxy route (\<^verbatim>\<open>src/app/api/ai/route.ts\<close>), with
  its task table, its retrying upstream caller, its response cache and its map of
  requests in flight. Definitions come first, in the order of the source; the properties
  follow.
\<close>

section \<open>JavaScript values\<close>

text \<open>
  The values that \<^verbatim>\<open>JSON.parse\<close> and property reads produce. A number is an integer
  here: numbers with a fractional part are left out. An object is the list of its
  own properties; the first binding of a name is the one that is read.
\<close>

datatype jsval =
    JUndefined
  | JNull
  | JBool bool
  | JNum int
  | JStr string
  | JArr "jsval list"
  | JObj "(string \<times> jsval) list"

datatype js_error = TypeError

text \<open>ToBoolean: what \<^verbatim>\<open>if (v)\<close>, \<^verbatim>\<open>!v\<close> and \<^verbatim>\<open>a && b\<close> test.\<close>

fun truthy :: "jsval \<Rightarrow> bool" where
  "truthy JUndefined = False"
| "truthy JNull = False"
| "truthy (JBool b) = b"
| "truthy (JNum n) = (n \<noteq> 0)"
| "truthy (JStr s) = (s \<noteq> [])"
| "truthy (JArr xs) = True"
| "truthy (JObj fs) = True"

text \<open>
  \<^verbatim>\<open>v.name\<close> for the property names the quiz component reads (\<^verbatim>\<open>question\<close>,
  \<^verbatim>\<open>options\<close>, \<^verbatim>\<open>correctAnswer\<close>), none of which is a built-in property of a string,
  a number, a boolean or an array: reading from \<^verbatim>\<open>null\<close> or \<^verbatim>\<open>undefined\<close> throws a
  TypeError, an object gives its property or \<^verbatim>\<open>undefined\<close>, everything else gives
  \<^verbatim>\<open>undefined\<close>.
\<close>

fun js_prop :: "jsval \<Rightarrow> string \<Rightarrow> js_error + jsval" where
  "js_prop JUndefined name = Inl TypeError"
| "js_prop JNull name = Inl TypeError"
| "js_prop (JObj fs) name = Inr (case map_of fs name of None \<Rightarrow> JUndefined | Some v \<Rightarrow> v)"
| "js_prop v name = Inr JUndefined"

section \<open>The quiz component\<close>

text \<open>
  The component's own state: the six \<^verbatim>\<open>useState\<close> cells of \<^verbatim>\<open>QuizGenerator\<close>. The
  list \<open>quiz\<close> holds the provider's array as it was received. The flags
  \<^verbatim>\<open>isLoading\<close> and \<^verbatim>\<open>error\<close> belong to the request hook and are arguments of
  the view.
\<close>

record quiz_state =
  quiz :: "jsval list"
  currentQuestionIndex :: nat
  selectedOption :: "string option"
  isAnswered :: bool
  score :: nat
  isQuizCompleted :: bool

definition initial_quiz_state :: quiz_state where
  "initial_quiz_state =
     \<lparr>quiz = [], currentQuestionIndex = 0, selectedOption = None, isAnswered = False,
      score = 0, isQuizCompleted = False\<rparr>"

text \<open>Calls that leave the component: the points hook and the request hook.\<close>

datatype effect = AddPoints nat string | MakeRequest string string

text \<open>
  The test of one array element in \<^verbatim>\<open>onSuccess\<close>:
  \<^verbatim>\<open>q.question && Array.isArray(q.options) && q.options.length === 4 && q.correctAnswer\<close>.
  Only \<^verbatim>\<open>q.question\<close> can throw, when \<^verbatim>\<open>q\<close> is \<^verbatim>\<open>null\<close> or \<^verbatim>\<open>undefined\<close>.
\<close>

definition is_array_of_4 :: "jsval \<Rightarrow> bool" where
  "is_array_of_4 v = (case v of JArr os \<Rightarrow> length os = 4 | _ \<Rightarrow> False)"

definition question_ok :: "jsval \<Rightarrow> js_error + bool" where
  "question_ok q =
     (case js_prop q ''question'' of
        Inl e \<Rightarrow> Inl e
      | Inr question \<Rightarrow>
          (case js_prop q ''options'' of
             Inl e \<Rightarrow> Inl e
           | Inr opts \<Rightarrow>
               (case js_prop q ''correctAnswer'' of
                  Inl e \<Rightarrow> Inl e
                | Inr correctAnswer \<Rightarrow>
                    Inr (truthy question \<and> is_array_of_4 opts \<and> truthy correctAnswer))))"

text \<open>\<^verbatim>\<open>data.every(...)\<close>: left to right, stopping at the first element that fails.\<close>

fun every_question_ok :: "jsval list \<Rightarrow> js_error + bool" where
  "every_question_ok [] = Inr True"
| "every_question_ok (q # qs) =
     (case question_ok q of
        Inl e \<Rightarrow> Inl e
      | Inr b \<Rightarrow> if b then every_question_ok qs else Inr False)"

text \<open>
  \<^verbatim>\<open>onSuccess\<close>: a payload that is not an array, or that fails the test, is logged and
  dropped (the early \<^verbatim>\<open>return\<close>); an exception thrown by the test leaves the callback
  before any state is set.
\<close>

definition onSuccess :: "jsval \<Rightarrow> quiz_state \<Rightarrow> js_error + quiz_state \<times> effect list" where
  "onSuccess data st =
     (case data of
        JArr qs \<Rightarrow>
          (case every_question_ok qs of
             Inl e \<Rightarrow> Inl e
           | Inr b \<Rightarrow>
               if \<not> b then Inr (st, [])
               else Inr (st\<lparr>quiz := qs, currentQuestionIndex := 0, selectedOption := None,
                            isAnswered := False, score := 0, isQuizCompleted := False\<rparr>,
                         [AddPoints 20 ''Generated a quiz'']))
      | _ \<Rightarrow> Inr (st, []))"

definition generateQuiz :: "string \<Rightarrow> effect list" where
  "generateQuiz studyText = [MakeRequest ''quiz'' studyText]"

definition restartQuiz :: "quiz_state \<Rightarrow> quiz_state \<times> effect list" where
  "restartQuiz st =
     (st\<lparr>currentQuestionIndex := 0, selectedOption := None, isAnswered := False,
          score := 0, isQuizCompleted := False\<rparr>, [])"

text \<open>\<^verbatim>\<open>quiz[currentQuestionIndex]\<close>: \<^verbatim>\<open>undefined\<close> past the end of the array.\<close>

definition currentQuestion :: "quiz_state \<Rightarrow> jsval" where
  "currentQuestion st =
     (if currentQuestionIndex st < length (quiz st) then quiz st ! currentQuestionIndex st
      else JUndefined)"

text \<open>
  What the component renders, branch by branch of its \<^verbatim>\<open>return\<close> statements. The
  hook's \<^verbatim>\<open>error\<close> is a message or \<^verbatim>\<open>null\<close>; an empty message is falsy.
\<close>

definition error_shown :: "string option \<Rightarrow> bool" where
  "error_shown error = (case error of None \<Rightarrow> False | Some msg \<Rightarrow> msg \<noteq> [])"

definition error_text :: "string option \<Rightarrow> string" where
  "error_text error = (case error of None \<Rightarrow> [] | Some msg \<Rightarrow> msg)"

datatype view =
    LoadingView
  | ErrorView string
  | NoQuestionsView
  | QuestionCard nat jsval
  | ResultsView nat nat
  | EmptyView

definition render :: "bool \<Rightarrow> string option \<Rightarrow> quiz_state \<Rightarrow> view" where
  "render isLoading error st =
     (if isLoading then LoadingView
      else if error_shown error then ErrorView (error_text error)
      else if \<not> truthy (currentQuestion st) \<and> \<not> isQuizCompleted st \<and> \<not> isLoading
        then NoQuestionsView
      else if \<not> isQuizCompleted st \<and> truthy (currentQuestion st)
        then QuestionCard (currentQuestionIndex st) (currentQuestion st)
      else if isQuizCompleted st then ResultsView (score st) (length (quiz st))
      else EmptyView)"

text \<open>
  The component state after the callback has run: the state it set, or the old state
  when it returned early or threw.
\<close>

definition quiz_after :: "jsval \<Rightarrow> quiz_state \<Rightarrow> quiz_state" where
  "quiz_after data st = (case onSuccess data st of Inl e \<Rightarrow> st | Inr (st', effs) \<Rightarrow> st')"

text \<open>
  The states of the quiz machine, read off the component state the way \<open>render\<close>
  does: \<open>Completed\<close> is the results card, \<open>Answering i\<close> the question card with
  the Check Answer button, \<open>Answered i\<close> the card with the Next button, and
  \<open>NoQuestion\<close> the placeholder shown when there is no current question.
\<close>

datatype phase = Answering nat | Answered nat | Completed | NoQuestion

definition phase :: "quiz_state \<Rightarrow> phase" where
  "phase st =
     (if isQuizCompleted st then Completed
      else if \<not> truthy (currentQuestion st) then NoQuestion
      else if isAnswered st then Answered (currentQuestionIndex st)
      else Answering (currentQuestionIndex st))"

text \<open>
  The malformed payloads, element by element: a \<^verbatim>\<open>question\<close> that is missing or
  falsy, \<^verbatim>\<open>options\<close> that are not an array of exactly 4 entries, a
  \<^verbatim>\<open>correctAnswer\<close> that is missing or falsy.
\<close>

definition has_truthy :: "jsval \<Rightarrow> string \<Rightarrow> bool" where
  "has_truthy q name = (case js_prop q name of Inl e \<Rightarrow> False | Inr v \<Rightarrow> truthy v)"

definition has_4_options :: "jsval \<Rightarrow> bool" where
  "has_4_options q = (case js_prop q ''options'' of Inl e \<Rightarrow> False | Inr v \<Rightarrow> is_array_of_4 v)"

definition malformed_question :: "jsval \<Rightarrow> bool" where
  "malformed_question q =
     (\<not> has_truthy q ''question'' \<or> \<not> has_4_options q \<or> \<not> has_truthy q ''correctAnswer'')"

definition malformed_payload :: "jsval \<Rightarrow> bool" where
  "malformed_payload data =
     (case data of JArr qs \<Rightarrow> list_ex malformed_question qs | _ \<Rightarrow> True)"

text \<open>What the data model asks of a question beyond the component's test.\<close>

definition has_question_string :: "jsval \<Rightarrow> bool" where
  "has_question_string q = (case js_prop q ''question'' of Inr (JStr s) \<Rightarrow> True | _ \<Rightarrow> False)"

definition answer_among_options :: "jsval \<Rightarrow> bool" where
  "answer_among_options q =
     (case js_prop q ''options'' of
        Inr (JArr os) \<Rightarrow>
          (case js_prop q ''correctAnswer'' of Inr a \<Rightarrow> a \<in> set os | Inl e \<Rightarrow> False)
      | _ \<Rightarrow> False)"

text \<open>Payload elements and a finished quiz used in the examples.\<close>

definition four_options :: jsval where
  "four_options = JArr [JStr ''3'', JStr ''4'', JStr ''5'', JStr ''6'']"

definition foreign_answer_question :: jsval where
  "foreign_answer_question =
     JObj [(''question'', JStr ''What is 2 + 2?''), (''options'', four_options),
           (''correctAnswer'', JStr ''four'')]"

definition numeric_question :: jsval where
  "numeric_question =
     JObj [(''question'', JNum 42), (''options'', four_options), (''correctAnswer'', JStr ''4'')]"

definition good_question :: jsval where
  "good_question =
     JObj [(''question'', JStr ''What is 2 + 2?''), (''options'', four_options),
           (''correctAnswer'', JStr ''4'')]"

definition finished_quiz :: quiz_state where
  "finished_quiz =
     \<lparr>quiz = [good_question, foreign_answer_question], currentQuestionIndex = 1,
      selectedOption = Some ''4'', isAnswered = True, score = 3, isQuizCompleted = True\<rparr>"

section \<open>The proxy route\<close>

subsection \<open>Requests, cache keys and the task table\<close>

text \<open>
  The JSON body of a request as \<^verbatim>\<open>POST\<close> destructures it. \<open>task\<close> is the text that
  the template literal and the \<^verbatim>\<open>switch\<close> see (a body without a task behaves as the
  task \<^verbatim>\<open>undefined\<close>, which no case matches); \<open>content\<close> and \<open>prompt\<close> are a
  string or absent. A string is the list of its code units.
\<close>

record request =
  task :: string
  content :: "string option"
  prompt :: "string option"

text \<open>\<^verbatim>\<open>${v}\<close> inside a template literal.\<close>

definition js_template :: "string option \<Rightarrow> string" where
  "js_template v = (case v of None \<Rightarrow> ''undefined'' | Some s \<Rightarrow> s)"

text \<open>\<^verbatim>\<open>v?.slice(0, n)\<close>.\<close>

definition js_slice :: "nat \<Rightarrow> string option \<Rightarrow> string option" where
  "js_slice n v = (case v of None \<Rightarrow> None | Some s \<Rightarrow> Some (take n s))"

definition cacheKey :: "request \<Rightarrow> string" where
  "cacheKey req =
     task req @ '':'' @ js_template (js_slice 100 (content req)) @ '':'' @
     js_template (js_slice 50 (prompt req))"

definition CACHE_TTL :: int where
  "CACHE_TTL = 1000 * 60 * 10"

record params =
  model :: string
  systemPrompt :: string
  userPrompt :: string
  temperature :: rat
  maxTokens :: nat

definition default_model :: string where
  "default_model = ''meta-llama/llama-4-scout:free''"

definition reasoning_model :: string where
  "reasoning_model = ''deepseek/deepseek-r1-distill-qwen-32b:free''"

definition summarize_systemPrompt :: string where
  \<open>summarize_systemPrompt =
     ''You are an AI study assistant that creates concise, informative '' @
     ''summaries of educational content. Focus on key concepts, main ideas, '' @
     ''and important details. Format your response with clear headings, bullet '' @
     ''points for key facts, and a brief conclusion.''\<close>

definition summarize_userPrompt_1 :: string where
  \<open>summarize_userPrompt_1 =
     ''Please summarize the following text in a clear, structured format with '' @
     ''headings and bullet points for key concepts:\<newline>\<newline>''\<close>

definition quiz_systemPrompt :: string where
  \<open>quiz_systemPrompt =
     ''You are an AI study assistant that creates educational quiz questions. '' @
     ''Generate challenging but fair multiple-choice questions based on the '' @
     ''provided content. Each question should have 4 options with exactly one '' @
     ''correct answer. IMPORTANT: Return ONLY the raw JSON array without any '' @
     ''markdown formatting, code blocks, or explanation. The response should '' @
     ''be directly parseable by JSON.parse().''\<close>

definition quiz_userPrompt_1 :: string where
  \<open>quiz_userPrompt_1 =
     ''Create 5 multiple-choice quiz questions based on this content. Return '' @
     ''ONLY a JSON array with objects containing 'question', 'options' (array '' @
     ''of 4 choices), and 'correctAnswer' fields. Do not include any '' @
     ''explanation, markdown formatting, or code blocks in your response. The '' @
     ''response must be valid JSON that can be directly parsed:\<newline>\<newline>''\<close>

definition askdoubt_systemPrompt :: string where
  \<open>askdoubt_systemPrompt =
     ''You are an AI tutor that answers student questions clearly and '' @
     ''accurately. Provide detailed explanations with examples when helpful.''\<close>

definition askdoubt_userPrompt_1 :: string where
  \<open>askdoubt_userPrompt_1 =
     ''The student is studying the following content and has this question: "''\<close>

definition askdoubt_userPrompt_2 :: string where
  \<open>askdoubt_userPrompt_2 =
     ''"\<newline>\<newline>Content: ''\<close>

definition askdoubt_userPrompt_3 :: string where
  \<open>askdoubt_userPrompt_3 =
     ''\<newline>\<newline>Provide a helpful, educational answer.''\<close>

definition mindmap_systemPrompt :: string where
  \<open>mindmap_systemPrompt =
     ''You are an AI study assistant that creates mind maps. Extract key '' @
     ''concepts and their relationships from educational content. IMPORTANT: '' @
     ''Return ONLY the raw JSON object without any markdown formatting, code '' @
     ''blocks, or explanation. The response should be directly parseable by '' @
     ''JSON.parse().''\<close>

definition mindmap_userPrompt_1 :: string where
  \<open>mindmap_userPrompt_1 =
     ''Create a mind map based on this content. Return ONLY a JSON object with '' @
     ''a 'center' field (main topic) and a 'nodes' array. Each node should '' @
     ''have 'id', 'text', 'position' (as an array [x,y,z] with 3 numeric '' @
     ''values), and optionally 'children' (an array with the same structure). '' @
     ''Do not include any explanation, markdown formatting, or code blocks in '' @
     ''your response. The response must be valid JSON that can be directly '' @
     ''parsed:\<newline>\<newline>''\<close>

definition flashcards_systemPrompt :: string where
  \<open>flashcards_systemPrompt =
     ''You are an AI study assistant that creates effective flashcards for '' @
     ''learning. Extract key concepts and definitions from educational '' @
     ''content. IMPORTANT: Return ONLY the raw JSON array without any markdown '' @
     ''formatting, code blocks, or explanation. The response should be '' @
     ''directly parseable by JSON.parse().''\<close>

definition flashcards_userPrompt_1 :: string where
  \<open>flashcards_userPrompt_1 =
     ''Create 5-10 flashcards based on this content. Return ONLY a JSON array '' @
     ''with objects containing 'id', 'question', and 'answer' fields. Do not '' @
     ''include any explanation, markdown formatting, or code blocks in your '' @
     ''response. The response must be valid JSON that can be directly parsed:\<newline>\<newline>''\<close>

text \<open>
  What the request promise is rejected with: the five objects passed to
  \<^verbatim>\<open>reject\<close>, named after their \<^verbatim>\<open>error\<close> text. \<open>UpstreamHTTPError\<close> carries
  \<^verbatim>\<open>details\<close> and \<^verbatim>\<open>status\<close>, \<open>NetworkError\<close> and \<open>InternalError\<close> their
  \<^verbatim>\<open>details\<close>.
\<close>

datatype api_error =
    InvalidTask
  | UpstreamHTTPError jsval nat
  | AttemptsExhausted
  | NetworkError string
  | InternalError string

text \<open>
  The model choice and the \<^verbatim>\<open>switch\<close> over the task: the selected parameters, or the
  rejection of the \<^verbatim>\<open>default\<close> case.
\<close>

definition selectParams :: "request \<Rightarrow> api_error + params" where
  "selectParams req =
     (let m = (if task req = ''mindmap'' \<or> task req = ''quiz'' then reasoning_model
               else default_model)
      in
        if task req = ''summarize'' then
          Inr \<lparr>model = m, systemPrompt = summarize_systemPrompt,
               userPrompt = summarize_userPrompt_1 @ js_template (content req),
               temperature = 3 / 10, maxTokens = 1024\<rparr>
        else if task req = ''quiz'' then
          Inr \<lparr>model = m, systemPrompt = quiz_systemPrompt,
               userPrompt = quiz_userPrompt_1 @ js_template (content req),
               temperature = 7 / 10, maxTokens = 1500\<rparr>
        else if task req = ''askdoubt'' then
          Inr \<lparr>model = m, systemPrompt = askdoubt_systemPrompt,
               userPrompt =
                 askdoubt_userPrompt_1 @ js_template (prompt req) @ askdoubt_userPrompt_2 @
                 js_template (content req) @ askdoubt_userPrompt_3,
               temperature = 4 / 10, maxTokens = 1024\<rparr>
        else if task req = ''mindmap'' then
          Inr \<lparr>model = m, systemPrompt = mindmap_systemPrompt,
               userPrompt = mindmap_userPrompt_1 @ js_template (content req),
               temperature = 7 / 10, maxTokens = 2000\<rparr>
        else if task req = ''flashcards'' then
          Inr \<lparr>model = m, systemPrompt = flashcards_systemPrompt,
               userPrompt = flashcards_userPrompt_1 @ js_template (content req),
               temperature = 5 / 10, maxTokens = 1500\<rparr>
        else Inl InvalidTask)"

subsection \<open>The upstream caller\<close>

text \<open>
  One \<^verbatim>\<open>fetch\<close> either throws (timeout, connection error), with the message that ends
  up in \<^verbatim>\<open>details\<close>, or returns a response with a status and a body. \<open>Unreadable\<close>
  is a body whose reading throws, with the message of that error. For a failed
  response the body is read by \<^verbatim>\<open>response.json()\<close> (line 145) and \<open>Readable\<close> holds
  the parsed error data; for a successful one it is read by lines 186 and 187, and
  \<open>Readable\<close> holds the value of \<^verbatim>\<open>data.choices[0].message.content\<close>.
\<close>

datatype body = Unreadable string | Readable jsval

datatype outcome = Response nat body | Throws string

datatype event = Fetch params | Sleep nat

text \<open>\<^verbatim>\<open>response.ok\<close>.\<close>

definition ok :: "nat \<Rightarrow> bool" where
  "ok status = (200 \<le> status \<and> status \<le> 299)"

definition maxRetries :: nat where
  "maxRetries = 3"

text \<open>
  One pass through the loop body, after the fetch has settled: \<open>Break\<close> leaves the
  loop, \<open>Reject\<close> rejects the promise and returns, \<open>Retry ms\<close> sleeps for
  \<open>ms\<close> milliseconds and goes round again with \<^verbatim>\<open>retryCount\<close> one higher.
  \<open>caught\<close> is the \<^verbatim>\<open>catch\<close> block, which increments before it tests and before
  it computes the backoff; the 429 branch computes the backoff first.
\<close>

datatype step = Break | Reject api_error | Retry nat

definition caught :: "nat \<Rightarrow> string \<Rightarrow> step" where
  "caught retryCount msg =
     (if retryCount + 1 \<ge> maxRetries then Reject (NetworkError msg)
      else Retry (2 ^ (retryCount + 1) * 1000))"

definition attempt :: "nat \<Rightarrow> outcome \<Rightarrow> step" where
  "attempt retryCount out =
     (case out of
        Throws msg \<Rightarrow> caught retryCount msg
      | Response status b \<Rightarrow>
          if ok status then Break
          else (case b of
                  Unreadable msg \<Rightarrow> caught retryCount msg
                | Readable errorData \<Rightarrow>
                    if status = 429 then Retry (2 ^ retryCount * 1000)
                    else Reject (UpstreamHTTPError errorData status)))"

text \<open>The variable \<^verbatim>\<open>response\<close> is assigned only when the fetch returns.\<close>

definition assigned :: "(nat \<times> body) option \<Rightarrow> outcome \<Rightarrow> (nat \<times> body) option" where
  "assigned response out =
     (case out of Throws msg \<Rightarrow> response | Response status b \<Rightarrow> Some (status, b))"

text \<open>
  The \<^verbatim>\<open>while\<close> loop. \<open>fetch n\<close> is the outcome of the \<open>n\<close>-th fetch this call
  issues, counted from 0. The result is the rejection the loop returned with, or the
  value of \<^verbatim>\<open>response\<close> when the loop is left, together with the fetches and
  sleeps in order.
\<close>

function attempts ::
  "(nat \<Rightarrow> outcome) \<Rightarrow> params \<Rightarrow> nat \<Rightarrow> nat \<Rightarrow> (nat \<times> body) option \<Rightarrow>
     (api_error + (nat \<times> body) option) \<times> event list" where
  "attempts fetch ps retryCount n response =
     (if retryCount < maxRetries then
        (case attempt retryCount (fetch n) of
           Break \<Rightarrow> (Inr (assigned response (fetch n)), [Fetch ps])
         | Reject e \<Rightarrow> (Inl e, [Fetch ps])
         | Retry ms \<Rightarrow>
             (case attempts fetch ps (retryCount + 1) (n + 1) (assigned response (fetch n)) of
                (r, evs) \<Rightarrow> (r, Fetch ps # Sleep ms # evs)))
      else (Inr response, []))"
  by pat_completeness auto
termination
  by (relation "measure (\<lambda>(fetch, ps, retryCount, n, response). maxRetries - retryCount)") auto

declare attempts.simps [simp del]

text \<open>
  The whole call: the loop, the test after it, and the reading of the successful
  response. The result is what the promise is rejected or resolved with.
\<close>

definition callUpstream :: "(nat \<Rightarrow> outcome) \<Rightarrow> params \<Rightarrow> (api_error + jsval) \<times> event list" where
  "callUpstream fetch ps =
     (case attempts fetch ps 0 0 None of
        (Inl e, evs) \<Rightarrow> (Inl e, evs)
      | (Inr response, evs) \<Rightarrow>
          (case response of
             None \<Rightarrow> (Inl AttemptsExhausted, evs)
           | Some (status, b) \<Rightarrow>
               if \<not> ok status then (Inl AttemptsExhausted, evs)
               else (case b of
                       Unreadable msg \<Rightarrow> (Inl (InternalError msg), evs)
                     | Readable c \<Rightarrow> (Inr (JObj [(''result'', c)]), evs))))"

definition is_Fetch :: "event \<Rightarrow> bool" where
  "is_Fetch ev = (case ev of Fetch ps \<Rightarrow> True | Sleep ms \<Rightarrow> False)"

definition attempts_made :: "event list \<Rightarrow> nat" where
  "attempts_made evs = length (filter is_Fetch evs)"

subsection \<open>Cache, in-flight map and the handler\<close>

record cache_entry =
  data :: jsval
  timestamp :: int

datatype promise = Pending | Fulfilled jsval | Rejected api_error

text \<open>
  The two module-level maps, and the promises created so far: a promise is named by
  its position in \<open>promises\<close>, and \<open>ongoingRequests\<close> maps a key to the promise
  stored under it.
\<close>

record server =
  responseCache :: "string \<rightharpoonup> cache_entry"
  ongoingRequests :: "string \<rightharpoonup> nat"
  promises :: "promise list"

definition empty_server :: server where
  "empty_server = \<lparr>responseCache = Map.empty, ongoingRequests = Map.empty, promises = []\<rparr>"

text \<open>
  The two replies of the route: status 200 with a result object, and the status 500 of
  the outer \<^verbatim>\<open>catch\<close> with its \<^verbatim>\<open>details\<close>. Every rejection is a plain object,
  not an \<^verbatim>\<open>Error\<close>, so its \<^verbatim>\<open>details\<close> are \<^verbatim>\<open>String(error)\<close>.
\<close>

datatype response = Json200 jsval | Json500 string

definition error_response :: "api_error \<Rightarrow> response" where
  \<open>error_response e = Json500 ''[object Object]''\<close>

definition settled_response :: "api_error + jsval \<Rightarrow> response" where
  "settled_response res = (case res of Inl e \<Rightarrow> error_response e | Inr result \<Rightarrow> Json200 result)"

text \<open>
  Where a handler stands: it has replied, it waits at line 34 for another request's
  promise, or it waits at line 212 for its own promise, whose executor has issued its
  first fetch with the given parameters.
\<close>

datatype handler = Respond response | AwaitShared nat | AwaitOwn nat params

text \<open>The cache test of lines 23 and 24, at time \<open>now\<close> (milliseconds).\<close>

definition cached :: "server \<Rightarrow> int \<Rightarrow> string \<Rightarrow> jsval option" where
  "cached st now key =
     (case responseCache st key of
        None \<Rightarrow> None
      | Some entry \<Rightarrow> if now - timestamp entry < CACHE_TTL then Some (data entry) else None)"

text \<open>
  Lines 42 to 212, up to the handler's \<^verbatim>\<open>await\<close>. The executor of the new promise
  runs at once, up to its first \<^verbatim>\<open>await\<close>. For an unknown task it rejects and
  returns, and its \<^verbatim>\<open>finally\<close> block deletes the key, all before line 209 stores the
  promise; the handler's \<^verbatim>\<open>await\<close> then throws into the outer \<^verbatim>\<open>catch\<close>. For a
  known task the executor is suspended in its first fetch when line 209 stores the
  promise.
\<close>

definition start_request :: "server \<Rightarrow> request \<Rightarrow> handler \<times> server" where
  "start_request st req =
     (let key = cacheKey req; pid = length (promises st) in
      case selectParams req of
        Inl e \<Rightarrow>
          (let st1 = st\<lparr>promises := promises st @ [Rejected e],
                         ongoingRequests := (ongoingRequests st)(key := None)\<rparr>;
               st2 = st1\<lparr>ongoingRequests := (ongoingRequests st1)(key \<mapsto> pid)\<rparr>
           in (Respond (error_response e), st2))
      | Inr ps \<Rightarrow>
          (AwaitOwn pid ps,
           st\<lparr>promises := promises st @ [Pending],
              ongoingRequests := (ongoingRequests st)(key \<mapsto> pid)\<rparr>))"

text \<open>
  The executor settling, at time \<open>now\<close>: on success the cache entry is written and
  the promise resolved; on failure the promise is rejected; the \<^verbatim>\<open>finally\<close> block
  deletes the key in both cases.
\<close>

definition finish_request :: "server \<Rightarrow> int \<Rightarrow> string \<Rightarrow> nat \<Rightarrow> api_error + jsval \<Rightarrow> server" where
  "finish_request st now key pid res =
     (case res of
        Inr result \<Rightarrow>
          st\<lparr>responseCache := (responseCache st)(key \<mapsto> \<lparr>data = result, timestamp = now\<rparr>),
             promises := (promises st)[pid := Fulfilled result],
             ongoingRequests := (ongoingRequests st)(key := None)\<rparr>
      | Inl e \<Rightarrow>
          st\<lparr>promises := (promises st)[pid := Rejected e],
             ongoingRequests := (ongoingRequests st)(key := None)\<rparr>)"

text \<open>Lines 17 to 40: the cache test, then the in-flight test, then a new request.\<close>

definition POST_begin :: "server \<Rightarrow> int \<Rightarrow> request \<Rightarrow> handler \<times> server" where
  "POST_begin st now req =
     (case cached st now (cacheKey req) of
        Some d \<Rightarrow> (Respond (Json200 d), st)
      | None \<Rightarrow>
          (case ongoingRequests st (cacheKey req) of
             Some pid \<Rightarrow> (AwaitShared pid, st)
           | None \<Rightarrow> start_request st req))"

text \<open>
  The waiter of line 34 resumed, in the state \<open>st\<close> of that moment, with what the
  shared promise settled to: a result is returned; a rejection is caught at line 36 and
  control falls through to line 42.
\<close>

definition POST_after_wait :: "server \<Rightarrow> request \<Rightarrow> api_error + jsval \<Rightarrow> handler \<times> server" where
  "POST_after_wait st req settled =
     (case settled of
        Inr result \<Rightarrow> (Respond (Json200 result), st)
      | Inl e \<Rightarrow> start_request st req)"

text \<open>
  A handler that runs with no other handler in between. \<open>POST_finish\<close> takes it from
  line 212 to its reply: its executor calls upstream with the outcomes \<open>fetch\<close>
  and settles at time \<open>now'\<close>. The third component lists the upstream calls made,
  each with its fetches and sleeps. A handler that waits for a promise nobody will
  settle never replies: \<open>None\<close>.
\<close>

definition POST_finish ::
  "request \<Rightarrow> (nat \<Rightarrow> outcome) \<Rightarrow> int \<Rightarrow> handler \<times> server \<Rightarrow>
     (response \<times> server \<times> event list list) option" where
  "POST_finish req fetch now' hs =
     (case hs of
        (Respond r, st) \<Rightarrow> Some (r, st, [])
      | (AwaitShared pid, st) \<Rightarrow> None
      | (AwaitOwn pid ps, st) \<Rightarrow>
          (case callUpstream fetch ps of
             (res, evs) \<Rightarrow>
               Some (settled_response res, finish_request st now' (cacheKey req) pid res, [evs])))"

definition POST_alone ::
  "server \<Rightarrow> int \<Rightarrow> request \<Rightarrow> (nat \<Rightarrow> outcome) \<Rightarrow> int \<Rightarrow>
     (response \<times> server \<times> event list list) option" where
  "POST_alone st now req fetch now' =
     (case POST_begin st now req of
        (AwaitShared pid, st1) \<Rightarrow>
          (if pid < length (promises st1) then
             (case promises st1 ! pid of
                Pending \<Rightarrow> None
              | Fulfilled result \<Rightarrow> POST_finish req fetch now' (POST_after_wait st1 req (Inr result))
              | Rejected e \<Rightarrow> POST_finish req fetch now' (POST_after_wait st1 req (Inl e)))
           else None)
      | hs \<Rightarrow> POST_finish req fetch now' hs)"

text \<open>The reply and the upstream calls of such a run.\<close>

definition reply_of :: "(response \<times> server \<times> event list list) option \<Rightarrow> response option" where
  "reply_of run = (case run of None \<Rightarrow> None | Some (r, st, calls) \<Rightarrow> Some r)"

definition calls_of :: "(response \<times> server \<times> event list list) option \<Rightarrow> event list list" where
  "calls_of run = (case run of None \<Rightarrow> [] | Some (r, st, calls) \<Rightarrow> calls)"

subsection \<open>Inputs used in the examples\<close>

definition sample_request :: request where
  "sample_request = \<lparr>task = ''summarize'', content = Some ''Cells'', prompt = None\<rparr>"

definition sample_params :: params where
  "sample_params =
     \<lparr>model = default_model, systemPrompt = summarize_systemPrompt,
      userPrompt = summarize_userPrompt_1 @ ''Cells'', temperature = 3 / 10, maxTokens = 1024\<rparr>"

definition bogus_request :: request where
  "bogus_request = \<lparr>task = ''bogus'', content = Some ''Cells'', prompt = None\<rparr>"

definition answer :: jsval where
  "answer = JObj [(''result'', JStr ''A cell is the unit of life.'')]"

text \<open>Upstream behaviours: each gives the outcome of the \<open>n\<close>-th fetch.\<close>

definition always_answers :: "nat \<Rightarrow> outcome" where
  "always_answers n = Response 200 (Readable (JStr ''A cell is the unit of life.''))"

definition html_500_then_answers :: "nat \<Rightarrow> outcome" where
  "html_500_then_answers n =
     (if n = 0 then Response 500 (Unreadable ''Unexpected token <'')
      else Response 200 (Readable (JStr ''A cell is the unit of life.'')))"

definition timeout_then_answers :: "nat \<Rightarrow> outcome" where
  "timeout_then_answers n =
     (if n = 0 then Throws ''The operation was aborted due to timeout''
      else Response 200 (Readable (JStr ''A cell is the unit of life.'')))"

definition limited_then_unavailable :: "nat \<Rightarrow> outcome" where
  "limited_then_unavailable n =
     (if n = 0 then Response 429 (Readable (JStr ''slow down''))
      else Response 503 (Readable (JStr ''unavailable'')))"

definition always_times_out :: "nat \<Rightarrow> outcome" where
  "always_times_out n = Throws ''The operation was aborted due to timeout''"

text \<open>Two requests whose contents differ after their first 100 characters.\<close>

definition first_request :: request where
  "first_request =
     \<lparr>task = ''summarize'', content = Some (replicate 100 (CHR ''a'') @ '' mitosis''),
      prompt = None\<rparr>"

definition second_request :: request where
  "second_request =
     \<lparr>task = ''summarize'', content = Some (replicate 100 (CHR ''a'') @ '' meiosis''),
      prompt = None\<rparr>"

definition first_params :: params where
  "first_params =
     \<lparr>model = default_model, systemPrompt = summarize_systemPrompt,
      userPrompt = summarize_userPrompt_1 @ replicate 100 (CHR ''a'') @ '' mitosis'',
      temperature = 3 / 10, maxTokens = 1024\<rparr>"




text \<open>A server on which one request for the sample key is in flight.\<close>

definition busy_server :: server where
  "busy_server =
     \<lparr>responseCache = Map.empty,
      ongoingRequests = [''summarize:Cells:undefined'' \<mapsto> 0],
      promises = [Pending]\<rparr>"

section \<open>Properties of the quiz component\<close>

lemma every_question_ok_all:
  "every_question_ok qs = Inr True \<Longrightarrow> q \<in> set qs \<Longrightarrow> question_ok q = Inr True"
  by (induction qs) (auto split: sum.splits if_splits)

lemma question_ok_not_malformed:
  "question_ok q = Inr True \<Longrightarrow> \<not> malformed_question q"
  by (auto simp: question_ok_def malformed_question_def has_truthy_def has_4_options_def
      split: sum.splits)

lemma stored_only_if_all_ok:
  "quiz_after (JArr qs) st \<noteq> st \<Longrightarrow> every_question_ok qs = Inr True"
  by (auto simp: quiz_after_def onSuccess_def split: sum.splits if_splits)

lemma not_array_dropped:
  "\<forall>qs. payload \<noteq> JArr qs \<Longrightarrow> quiz_after payload st = st"
  by (cases payload) (simp_all add: quiz_after_def onSuccess_def)

text \<open>
  Claim C7 as stated fails: a question whose \<^verbatim>\<open>correctAnswer\<close> is none of its 4 options
  passes the test, is stored and is rendered as the first question card.
\<close>

theorem foreign_answer_counterexample:
  "\<not> answer_among_options foreign_answer_question \<and>
   quiz (quiz_after (JArr [foreign_answer_question]) initial_quiz_state) = [foreign_answer_question] \<and>
   render False None (quiz_after (JArr [foreign_answer_question]) initial_quiz_state) =
     QuestionCard 0 foreign_answer_question"
  by (simp add: answer_among_options_def foreign_answer_question_def four_options_def
      quiz_after_def onSuccess_def question_ok_def is_array_of_4_def initial_quiz_state_def
      render_def currentQuestion_def error_shown_def)

text \<open>
  Claim C7, as amended. A payload with an element whose \<^verbatim>\<open>options\<close> are not an array of
  exactly 4 entries is rejected as a whole: nothing of it is stored, so nothing of it is
  rendered. That the \<^verbatim>\<open>correctAnswer\<close> is one of the options is not tested.
\<close>

theorem four_options_enforced:
  assumes "q \<in> set qs" and "\<not> has_4_options q"
  shows "quiz_after (JArr qs) st = st"
proof (rule ccontr)
  assume "quiz_after (JArr qs) st \<noteq> st"
  then have "every_question_ok qs = Inr True"
    by (rule stored_only_if_all_ok)
  from this assms(1) have "question_ok q = Inr True"
    by (rule every_question_ok_all)
  then have "\<not> malformed_question q"
    by (rule question_ok_not_malformed)
  with assms(2) show False
    by (simp add: malformed_question_def)
qed

text \<open>
  The amended C7 at a payload whose second element has two options.
\<close>

theorem four_options_enforced_witness:
  "JObj [(''question'', JStr ''Q''), (''options'', JArr [JStr ''3'', JStr ''4''])] \<in>
     set [good_question, JObj [(''question'', JStr ''Q''), (''options'', JArr [JStr ''3'', JStr ''4''])]] \<and>
   \<not> has_4_options (JObj [(''question'', JStr ''Q''), (''options'', JArr [JStr ''3'', JStr ''4''])]) \<and>
   quiz_after
     (JArr [good_question, JObj [(''question'', JStr ''Q''), (''options'', JArr [JStr ''3'', JStr ''4''])]])
     initial_quiz_state = initial_quiz_state"
proof -
  have a: "JObj [(''question'', JStr ''Q''), (''options'', JArr [JStr ''3'', JStr ''4''])] \<in>
     set [good_question, JObj [(''question'', JStr ''Q''), (''options'', JArr [JStr ''3'', JStr ''4''])]]"
    by simp
  have b: "\<not> has_4_options (JObj [(''question'', JStr ''Q''), (''options'', JArr [JStr ''3'', JStr ''4''])])"
    by (simp add: has_4_options_def is_array_of_4_def)
  from four_options_enforced [OF a b, of initial_quiz_state] a b show ?thesis
    by simp
qed

text \<open>
  Claim C8 as stated fails: an element whose \<^verbatim>\<open>question\<close> is the number 42, not a
  string, passes the test (the test is truthiness), is stored and is rendered. And a
  payload that is rejected, here a string, leaves the first-time component showing the
  placeholder once the hook reports neither loading nor an error: the component itself
  sets no error.
\<close>

theorem question_type_counterexample:
  "\<not> has_question_string numeric_question \<and>
   quiz (quiz_after (JArr [numeric_question]) initial_quiz_state) = [numeric_question] \<and>
   render False None (quiz_after (JArr [numeric_question]) initial_quiz_state) =
     QuestionCard 0 numeric_question \<and>
   render False None (quiz_after (JStr ''Sorry, I cannot help.'') initial_quiz_state) =
     NoQuestionsView"
  by (simp add: has_question_string_def numeric_question_def four_options_def
      quiz_after_def onSuccess_def question_ok_def is_array_of_4_def initial_quiz_state_def
      render_def currentQuestion_def error_shown_def)

text \<open>
  Claim C8, as amended. A payload that is not an array, or that has an element with a
  missing or falsy \<^verbatim>\<open>question\<close>, with \<^verbatim>\<open>options\<close> that are not an array of exactly 4
  entries, or with a missing or falsy \<^verbatim>\<open>correctAnswer\<close>, leaves the component state as
  it was: nothing of the payload is stored, and the view stays what the request hook's
  flags and the old state make it.
\<close>

theorem malformed_payload_dropped:
  assumes "malformed_payload payload"
  shows "quiz_after payload st = st \<and> render isLoading error (quiz_after payload st) = render isLoading error st"
proof -
  have "quiz_after payload st = st"
  proof (cases "\<exists>qs. payload = JArr qs")
    case False
    then show ?thesis by (simp add: not_array_dropped)
  next
    case True
    then obtain qs where qs: "payload = JArr qs" by blast
    with assms obtain q where q: "q \<in> set qs" "malformed_question q"
      by (auto simp: malformed_payload_def list_ex_iff)
    show ?thesis
    proof (rule ccontr)
      assume "quiz_after payload st \<noteq> st"
      with qs have "every_question_ok qs = Inr True"
        by (simp add: stored_only_if_all_ok)
      from this q(1) have "question_ok q = Inr True"
        by (rule every_question_ok_all)
      with q(2) show False
        by (simp add: question_ok_not_malformed)
    qed
  qed
  then show ?thesis by simp
qed

text \<open>
  The amended C8 at a payload whose second element has no options and no answer, with the
  hook still loading.
\<close>

theorem malformed_payload_dropped_witness:
  "malformed_payload (JArr [good_question, JObj [(''question'', JStr ''Q'')]]) \<and>
   quiz_after (JArr [good_question, JObj [(''question'', JStr ''Q'')]]) initial_quiz_state =
     initial_quiz_state \<and>
   render True None (quiz_after (JArr [good_question, JObj [(''question'', JStr ''Q'')]]) initial_quiz_state) =
     LoadingView"
proof -
  have m: "malformed_payload (JArr [good_question, JObj [(''question'', JStr ''Q'')]])"
    by (simp add: malformed_payload_def malformed_question_def has_4_options_def
        has_truthy_def is_array_of_4_def good_question_def four_options_def)
  from malformed_payload_dropped [OF m, of initial_quiz_state True None] m show ?thesis
    by (simp add: render_def)
qed

text \<open>
  Claim C9. \<^verbatim>\<open>restartQuiz\<close> sets the index and the score to 0, clears the selected option
  and both flags, keeps the question list and calls neither hook (no new generation);
  with a first question in the list the machine is in \<open>Answering 0\<close>, showing that
  question.
\<close>

theorem restartQuiz_resets:
  "currentQuestionIndex (fst (restartQuiz st)) = 0 \<and>
   score (fst (restartQuiz st)) = 0 \<and>
   selectedOption (fst (restartQuiz st)) = None \<and>
   \<not> isAnswered (fst (restartQuiz st)) \<and>
   \<not> isQuizCompleted (fst (restartQuiz st)) \<and>
   quiz (fst (restartQuiz st)) = quiz st \<and>
   snd (restartQuiz st) = [] \<and>
   snd (restartQuiz st) \<noteq> generateQuiz studyText \<and>
   (quiz st = q # qs \<and> truthy q \<longrightarrow>
      phase (fst (restartQuiz st)) = Answering 0 \<and>
      render False None (fst (restartQuiz st)) = QuestionCard 0 q)"
  by (simp add: restartQuiz_def generateQuiz_def phase_def render_def currentQuestion_def
      error_shown_def)

text \<open>
  C9 at a completed quiz of two questions with score 3.
\<close>

theorem restartQuiz_resets_witness:
  "quiz finished_quiz = good_question # [foreign_answer_question] \<and> truthy good_question \<and>
   phase finished_quiz = Completed \<and> score finished_quiz = 3 \<and>
   phase (fst (restartQuiz finished_quiz)) = Answering 0 \<and>
   score (fst (restartQuiz finished_quiz)) = 0 \<and>
   quiz (fst (restartQuiz finished_quiz)) = quiz finished_quiz"
proof -
  have h: "quiz finished_quiz = good_question # [foreign_answer_question] \<and> truthy good_question"
    by (simp add: finished_quiz_def good_question_def)
  have c: "phase finished_quiz = Completed \<and> score finished_quiz = 3"
    by (simp add: finished_quiz_def phase_def)
  from restartQuiz_resets [of finished_quiz "''Cells''" good_question "[foreign_answer_question]"] h c
  show ?thesis by blast
qed

text \<open>
  Claim C10. The empty array passes the test; the question list becomes empty, the
  generation points are awarded, and the component ends with no current question, in
  neither \<open>Answering\<close> nor \<open>Completed\<close>, showing the placeholder.
\<close>

theorem empty_array_accepted:
  "every_question_ok [] = Inr True \<and>
   onSuccess (JArr []) st =
     Inr (st\<lparr>quiz := [], currentQuestionIndex := 0, selectedOption := None, isAnswered := False,
             score := 0, isQuizCompleted := False\<rparr>, [AddPoints 20 ''Generated a quiz'']) \<and>
   quiz (quiz_after (JArr []) st) = [] \<and>
   currentQuestion (quiz_after (JArr []) st) = JUndefined \<and>
   phase (quiz_after (JArr []) st) = NoQuestion \<and>
   render False None (quiz_after (JArr []) st) = NoQuestionsView \<and>
   \<not> malformed_payload (JArr [])"
  by (simp add: onSuccess_def quiz_after_def currentQuestion_def phase_def render_def
      error_shown_def malformed_payload_def)

section \<open>Evaluations of the task table and the cache key\<close>

lemma selectParams_sample: "selectParams sample_request = Inr sample_params"
  by (simp add: selectParams_def sample_request_def sample_params_def js_template_def)

lemma selectParams_bogus: "selectParams bogus_request = Inl InvalidTask"
  by (simp add: selectParams_def bogus_request_def)

lemma selectParams_first: "selectParams first_request = Inr first_params"
  by (simp add: selectParams_def first_request_def first_params_def js_template_def)

lemma cacheKey_sample: "cacheKey sample_request = ''summarize:Cells:undefined''"
  by (simp add: cacheKey_def sample_request_def js_template_def js_slice_def)



section \<open>Properties of the upstream caller\<close>

subsection \<open>The shape of a run\<close>

lemma attempts_stop:
  "\<not> retryCount < maxRetries \<Longrightarrow> attempts fetch ps retryCount n response = (Inr response, [])"
  by (subst attempts.simps) simp

lemma attempts_go:
  "retryCount < maxRetries \<Longrightarrow>
   attempts fetch ps retryCount n response =
     (case attempt retryCount (fetch n) of
        Break \<Rightarrow> (Inr (assigned response (fetch n)), [Fetch ps])
      | Reject e \<Rightarrow> (Inl e, [Fetch ps])
      | Retry ms \<Rightarrow>
          (fst (attempts fetch ps (retryCount + 1) (n + 1) (assigned response (fetch n))),
           Fetch ps # Sleep ms #
           snd (attempts fetch ps (retryCount + 1) (n + 1) (assigned response (fetch n)))))"
  by (subst attempts.simps) (simp split: step.splits prod.splits)

lemma attempts_starts_with_fetch:
  "retryCount < maxRetries \<Longrightarrow>
   \<exists>evs. snd (attempts fetch ps retryCount n response) = Fetch ps # evs"
  by (simp add: attempts_go split: step.splits)

lemma attempts_made_bound:
  "attempts_made (snd (attempts fetch ps retryCount n response)) \<le> maxRetries - retryCount"
proof (induction fetch ps retryCount n response rule: attempts.induct)
  case (1 fetch ps retryCount n response)
  show ?case
  proof (cases "retryCount < maxRetries")
    case False
    then show ?thesis by (simp add: attempts_stop attempts_made_def)
  next
    case True
    show ?thesis
    proof (cases "attempt retryCount (fetch n)")
      case Break
      with True show ?thesis by (simp add: attempts_go attempts_made_def is_Fetch_def)
    next
      case (Reject e)
      with True show ?thesis by (simp add: attempts_go attempts_made_def is_Fetch_def)
    next
      case (Retry ms)
      with True "1.IH" [OF True Retry]
      show ?thesis by (simp add: attempts_go attempts_made_def is_Fetch_def)
    qed
  qed
qed

text \<open>
  Attempt \<open>r + k\<close> of a run that starts at \<open>retryCount = r\<close> stands at position
  \<open>2 * k\<close> of the trace, and what follows it is decided by \<open>attempt\<close>.
\<close>

lemma attempts_trace:
  "2 * k < length (snd (attempts fetch ps r r resp)) \<Longrightarrow>
   r + k < maxRetries \<and>
   snd (attempts fetch ps r r resp) ! (2 * k) = Fetch ps \<and>
   (case attempt (r + k) (fetch (r + k)) of
      Break \<Rightarrow> length (snd (attempts fetch ps r r resp)) = 2 * k + 1
    | Reject e \<Rightarrow>
        fst (attempts fetch ps r r resp) = Inl e \<and>
        length (snd (attempts fetch ps r r resp)) = 2 * k + 1
    | Retry ms \<Rightarrow>
        2 * k + 1 < length (snd (attempts fetch ps r r resp)) \<and>
        snd (attempts fetch ps r r resp) ! (2 * k + 1) = Sleep ms \<and>
        (r + k + 1 < maxRetries \<longrightarrow> 2 * k + 2 < length (snd (attempts fetch ps r r resp))))"
proof (induction k arbitrary: r resp)
  case 0
  then have r: "r < maxRetries"
    by (cases "r < maxRetries") (simp_all add: attempts_stop)
  show ?case
  proof (cases "attempt r (fetch r)")
    case (Retry ms)
    obtain evs where "r + 1 < maxRetries \<longrightarrow>
        snd (attempts fetch ps (r + 1) (r + 1) (assigned resp (fetch r))) = Fetch ps # evs"
      using attempts_starts_with_fetch [of "r + 1" fetch ps "r + 1" "assigned resp (fetch r)"]
      by blast
    with r Retry show ?thesis by (auto simp add: attempts_go)
  qed (use r in \<open>simp_all add: attempts_go\<close>)
next
  case (Suc k)
  then have r: "r < maxRetries"
    by (cases "r < maxRetries") (simp_all add: attempts_stop)
  show ?case
  proof (cases "attempt r (fetch r)")
    case Break
    with r Suc.prems show ?thesis by (simp add: attempts_go)
  next
    case (Reject e)
    with r Suc.prems show ?thesis by (simp add: attempts_go)
  next
    case (Retry ms)
    define rest where "rest = attempts fetch ps (r + 1) (r + 1) (assigned resp (fetch r))"
    have run: "attempts fetch ps r r resp = (fst rest, Fetch ps # Sleep ms # snd rest)"
      using r Retry by (simp add: attempts_go rest_def)
    with Suc.prems have "2 * k < length (snd rest)"
      by simp
    then have "(r + 1) + k < maxRetries \<and>
        snd rest ! (2 * k) = Fetch ps \<and>
        (case attempt ((r + 1) + k) (fetch ((r + 1) + k)) of
           Break \<Rightarrow> length (snd rest) = 2 * k + 1
         | Reject e \<Rightarrow> fst rest = Inl e \<and> length (snd rest) = 2 * k + 1
         | Retry ms \<Rightarrow>
             2 * k + 1 < length (snd rest) \<and> snd rest ! (2 * k + 1) = Sleep ms \<and>
             ((r + 1) + k + 1 < maxRetries \<longrightarrow> 2 * k + 2 < length (snd rest)))"
      unfolding rest_def by (rule Suc.IH)
    then show ?thesis
      by (simp add: run split: step.splits)
  qed
qed

lemma snd_callUpstream: "snd (callUpstream fetch ps) = snd (attempts fetch ps 0 0 None)"
  by (cases "attempts fetch ps 0 0 None")
    (simp add: callUpstream_def split: sum.splits option.splits body.splits)

lemma rejected_callUpstream:
  "fst (attempts fetch ps 0 0 None) = Inl e \<Longrightarrow> fst (callUpstream fetch ps) = Inl e"
  by (cases "attempts fetch ps 0 0 None") (simp add: callUpstream_def)

lemma callUpstream_trace:
  assumes "2 * k < length (snd (callUpstream fetch ps))"
  shows "k < maxRetries \<and>
   snd (callUpstream fetch ps) ! (2 * k) = Fetch ps \<and>
   (case attempt k (fetch k) of
      Break \<Rightarrow> length (snd (callUpstream fetch ps)) = 2 * k + 1
    | Reject e \<Rightarrow>
        fst (callUpstream fetch ps) = Inl e \<and> length (snd (callUpstream fetch ps)) = 2 * k + 1
    | Retry ms \<Rightarrow>
        2 * k + 1 < length (snd (callUpstream fetch ps)) \<and>
        snd (callUpstream fetch ps) ! (2 * k + 1) = Sleep ms \<and>
        (k + 1 < maxRetries \<longrightarrow> 2 * k + 2 < length (snd (callUpstream fetch ps))))"
  using attempts_trace [of k fetch ps 0 None] assms
  by (auto simp add: snd_callUpstream rejected_callUpstream split: step.splits)

lemma attempt_429: "attempt a (Response 429 (Readable d)) = Retry (2 ^ a * 1000)"
  by (simp add: attempt_def ok_def)

lemma attempt_other:
  "\<not> ok status \<Longrightarrow> status \<noteq> 429 \<Longrightarrow>
   attempt a (Response status (Readable d)) = Reject (UpstreamHTTPError d status)"
  by (simp add: attempt_def)

lemma attempt_throws:
  "attempt a (Throws msg) =
     (if a + 1 < maxRetries then Retry (2 ^ (a + 1) * 1000) else Reject (NetworkError msg))"
  by (auto simp: attempt_def caught_def)

subsection \<open>Runs against the example upstreams\<close>

lemmas run_simps =
  attempts_go attempts_stop callUpstream_def attempt_def caught_def assigned_def ok_def
  maxRetries_def

lemma run_html_500_then_answers:
  "callUpstream html_500_then_answers ps = (Inr answer, [Fetch ps, Sleep 2000, Fetch ps])"
  by (simp add: run_simps html_500_then_answers_def answer_def)

lemma run_timeout_then_answers:
  "callUpstream timeout_then_answers ps = (Inr answer, [Fetch ps, Sleep 2000, Fetch ps])"
  by (simp add: run_simps timeout_then_answers_def answer_def)

lemma run_always_times_out:
  "callUpstream always_times_out ps =
     (Inl (NetworkError ''The operation was aborted due to timeout''),
      [Fetch ps, Sleep 2000, Fetch ps, Sleep 4000, Fetch ps])"
  by (simp add: run_simps always_times_out_def)

lemma run_limited_then_unavailable:
  "callUpstream limited_then_unavailable ps =
     (Inl (UpstreamHTTPError (JStr ''unavailable'') 503), [Fetch ps, Sleep 1000, Fetch ps])"
  by (simp add: run_simps limited_then_unavailable_def)

lemma run_always_answers:
  "callUpstream always_answers ps = (Inr answer, [Fetch ps])"
  by (simp add: run_simps always_answers_def answer_def)

subsection \<open>Failing statuses\<close>

text \<open>
  Where the error body parses, the status decides. A call makes at most 3 attempts.
  Attempt \<open>a\<close> stands at position \<open>2 * a\<close> of the trace. When it is answered with
  status 429 and an error body that parses, the caller sleeps \<open>2 ^ a\<close> seconds next
  (1 s, 2 s, 4 s). When it is answered with any other failing status and an error body
  that parses, the call is rejected with that body and status and the trace ends with
  that attempt: no sleep, no retry.
\<close>

theorem upstream_status_policy:
  assumes "callUpstream fetch ps = (res, evs)"
  shows "attempts_made evs \<le> 3 \<and>
    (2 * a < length evs \<and> fetch a = Response 429 (Readable d) \<longrightarrow>
       evs ! (2 * a) = Fetch ps \<and> 2 * a + 1 < length evs \<and>
       evs ! (2 * a + 1) = Sleep (2 ^ a * 1000)) \<and>
    (2 * b < length evs \<and> fetch b = Response status (Readable d') \<and> \<not> ok status \<and>
     status \<noteq> 429 \<longrightarrow>
       evs ! (2 * b) = Fetch ps \<and> res = Inl (UpstreamHTTPError d' status) \<and>
       length evs = 2 * b + 1)"
proof -
  have evs: "evs = snd (callUpstream fetch ps)" and res: "res = fst (callUpstream fetch ps)"
    using assms by simp_all
  have "attempts_made evs \<le> 3"
    using attempts_made_bound [of fetch ps 0 0 None]
    by (simp add: evs snd_callUpstream maxRetries_def)
  moreover have "evs ! (2 * a) = Fetch ps \<and> 2 * a + 1 < length evs \<and>
       evs ! (2 * a + 1) = Sleep (2 ^ a * 1000)"
    if "2 * a < length evs" "fetch a = Response 429 (Readable d)"
    using callUpstream_trace [of a fetch ps] that by (simp add: evs attempt_429)
  moreover have "evs ! (2 * b) = Fetch ps \<and> res = Inl (UpstreamHTTPError d' status) \<and>
       length evs = 2 * b + 1"
    if "2 * b < length evs" "fetch b = Response status (Readable d')" "\<not> ok status" "status \<noteq> 429"
    using callUpstream_trace [of b fetch ps] that by (simp add: evs res attempt_other)
  ultimately show ?thesis by blast
qed

text \<open>
  The same at an upstream that answers 429 and then 503.
\<close>

theorem upstream_status_policy_witness:
  "callUpstream limited_then_unavailable sample_params =
     (Inl (UpstreamHTTPError (JStr ''unavailable'') 503),
      [Fetch sample_params, Sleep 1000, Fetch sample_params]) \<and>
   attempts_made [Fetch sample_params, Sleep 1000, Fetch sample_params] \<le> 3 \<and>
   limited_then_unavailable 0 = Response 429 (Readable (JStr ''slow down'')) \<and>
   [Fetch sample_params, Sleep 1000, Fetch sample_params] ! (2 * 0 + 1) = Sleep (2 ^ 0 * 1000) \<and>
   limited_then_unavailable 1 = Response 503 (Readable (JStr ''unavailable'')) \<and>
   \<not> ok 503 \<and> (503 :: nat) \<noteq> 429 \<and>
   length [Fetch sample_params, Sleep 1000, Fetch sample_params] = 2 * 1 + 1"
proof -
  have run: "callUpstream limited_then_unavailable sample_params =
     (Inl (UpstreamHTTPError (JStr ''unavailable'') 503),
      [Fetch sample_params, Sleep 1000, Fetch sample_params])"
    by (rule run_limited_then_unavailable)
  have first: "limited_then_unavailable 0 = Response 429 (Readable (JStr ''slow down''))"
    and second: "limited_then_unavailable 1 = Response 503 (Readable (JStr ''unavailable''))"
    and status: "\<not> ok 503" "(503 :: nat) \<noteq> 429"
    by (simp_all add: limited_then_unavailable_def ok_def)
  from upstream_status_policy [OF run, of 0 "JStr ''slow down''" 1 503 "JStr ''unavailable''"]
    run first second status
  show ?thesis by simp
qed

text \<open>
  Claim C3: at most 3 attempts, a wait of \<open>2 ^ attempt\<close> seconds after a 429, and
  for every other failing status an immediate failure with status and error body, without
  a retry. The code does otherwise when the first attempt is answered with status 500 and
  a body that is not JSON: \<^verbatim>\<open>response.json()\<close> throws inside the \<^verbatim>\<open>try\<close> block, the
  \<^verbatim>\<open>catch\<close> block takes the attempt for a network failure, and the caller sleeps 2000 ms
  and fetches again.
\<close>

theorem unreadable_error_body_is_retried:
  "html_500_then_answers 0 = Response 500 (Unreadable ''Unexpected token <'') \<and>
   \<not> ok 500 \<and> (500 :: nat) \<noteq> 429 \<and>
   callUpstream html_500_then_answers sample_params =
     (Inr answer, [Fetch sample_params, Sleep 2000, Fetch sample_params])"
  by (simp add: run_html_500_then_answers) (simp add: html_500_then_answers_def ok_def)

subsection \<open>Network failures\<close>

text \<open>
  When attempt \<open>a\<close> fails at network level and is the first or the
  second, the caller sleeps \<open>2 ^ (a + 1)\<close> seconds (2 s, 4 s) and fetches again; when it
  is the third, the call is rejected at once with a \<open>NetworkError\<close> that carries the
  message of that last error.
\<close>

theorem network_failure_policy:
  assumes "callUpstream fetch ps = (res, evs)" and "2 * a < length evs" and "fetch a = Throws msg"
  shows "evs ! (2 * a) = Fetch ps \<and>
    (a < 2 \<longrightarrow>
       2 * a + 2 < length evs \<and> evs ! (2 * a + 1) = Sleep (2 ^ (a + 1) * 1000) \<and>
       evs ! (2 * a + 2) = Fetch ps) \<and>
    (\<not> a < 2 \<longrightarrow> a = 2 \<and> res = Inl (NetworkError msg) \<and> length evs = 5)"
proof -
  have evs: "evs = snd (callUpstream fetch ps)" and res: "res = fst (callUpstream fetch ps)"
    using assms(1) by simp_all
  from callUpstream_trace [of a fetch ps] assms(2,3)
  have here: "a < maxRetries" "evs ! (2 * a) = Fetch ps"
    and step: "a < 2 \<Longrightarrow> 2 * a + 2 < length evs \<and> evs ! (2 * a + 1) = Sleep (2 ^ (a + 1) * 1000)"
    and last: "\<not> a < 2 \<Longrightarrow> res = Inl (NetworkError msg) \<and> length evs = 2 * a + 1"
    by (simp_all add: evs res attempt_throws maxRetries_def)
  have "evs ! (2 * a + 2) = Fetch ps" if "a < 2"
    using callUpstream_trace [of "a + 1" fetch ps] step [OF that] by (simp add: evs)
  with here step last show ?thesis
    by (auto simp: maxRetries_def)
qed

text \<open>
  The same at an upstream that always times out, for the first and the third attempt.
\<close>

theorem network_failure_policy_witness:
  "callUpstream always_times_out sample_params =
     (Inl (NetworkError ''The operation was aborted due to timeout''),
      [Fetch sample_params, Sleep 2000, Fetch sample_params, Sleep 4000, Fetch sample_params]) \<and>
   always_times_out 0 = Throws ''The operation was aborted due to timeout'' \<and>
   [Fetch sample_params, Sleep 2000, Fetch sample_params, Sleep 4000, Fetch sample_params] !
     (2 * 0 + 1) = Sleep (2 ^ (0 + 1) * 1000) \<and>
   always_times_out 2 = Throws ''The operation was aborted due to timeout'' \<and>
   length [Fetch sample_params, Sleep 2000, Fetch sample_params, Sleep 4000, Fetch sample_params]
     = 5"
proof -
  have run: "callUpstream always_times_out sample_params =
     (Inl (NetworkError ''The operation was aborted due to timeout''),
      [Fetch sample_params, Sleep 2000, Fetch sample_params, Sleep 4000, Fetch sample_params])"
    by (rule run_always_times_out)
  have out: "always_times_out 0 = Throws ''The operation was aborted due to timeout''"
    "always_times_out 2 = Throws ''The operation was aborted due to timeout''"
    by (simp_all add: always_times_out_def)
  have len: "2 * 0 <
      length [Fetch sample_params, Sleep 2000, Fetch sample_params, Sleep 4000, Fetch sample_params]"
    "2 * 2 <
      length [Fetch sample_params, Sleep 2000, Fetch sample_params, Sleep 4000, Fetch sample_params]"
    by simp_all
  from network_failure_policy [OF run len(1) out(1)] network_failure_policy [OF run len(2) out(2)]
    run out
  show ?thesis by simp
qed

text \<open>
  Claim C4: after a network failure of attempt \<open>a\<close> the caller waits \<open>2 ^ a\<close>
  seconds, as on the 429 path, retries up to the ceiling of 3 attempts, and then fails
  with a \<open>NetworkError\<close> that carries the last message. The code does otherwise when
  the first fetch times out: it sleeps 2000 ms before the second fetch, not
  \<open>2 ^ 0\<close> seconds.
\<close>

theorem timeout_backoff_is_doubled:
  "timeout_then_answers 0 = Throws ''The operation was aborted due to timeout'' \<and>
   callUpstream timeout_then_answers sample_params =
     (Inr answer, [Fetch sample_params, Sleep 2000, Fetch sample_params]) \<and>
   Sleep 2000 \<noteq> Sleep (2 ^ 0 * 1000)"
  by (simp add: run_timeout_then_answers) (simp add: timeout_then_answers_def)

section \<open>Properties of the handler\<close>

lemma cacheKey_agree:
  "task r1 = task r2 \<Longrightarrow> js_slice 100 (content r1) = js_slice 100 (content r2) \<Longrightarrow>
   js_slice 50 (prompt r1) = js_slice 50 (prompt r2) \<Longrightarrow> cacheKey r1 = cacheKey r2"
  by (simp add: cacheKey_def)

lemma entry_removed_on_settle:
  "ongoingRequests (finish_request st now key pid res) key = None"
  by (simp add: finish_request_def split: sum.splits)

lemma cached_after_success:
  "now' - now < CACHE_TTL \<Longrightarrow>
   cached (finish_request st now key pid (Inr result)) now' key = Some result"
  by (simp add: finish_request_def cached_def)

lemma cache_hit:
  "cached st now (cacheKey req) = Some d \<Longrightarrow>
   POST_alone st now req fetch now' = Some (Json200 d, st, [])"
  by (simp add: POST_alone_def POST_begin_def POST_finish_def)

lemma fresh_call:
  assumes "cached st now (cacheKey req) = None" and "ongoingRequests st (cacheKey req) = None"
  shows "POST_alone st now req fetch now' =
     (case selectParams req of
        Inl e \<Rightarrow> Some (error_response e, snd (start_request st req), [])
      | Inr ps \<Rightarrow>
          Some (settled_response (fst (callUpstream fetch ps)),
                finish_request (snd (start_request st req)) now' (cacheKey req)
                  (length (promises st)) (fst (callUpstream fetch ps)),
                [snd (callUpstream fetch ps)]))"
  using assms
  by (simp add: POST_alone_def POST_begin_def POST_finish_def start_request_def Let_def
      split: sum.splits prod.splits)




text \<open>
  Claim C5. A first call that finds neither a live cache entry nor an in-flight request
  and replies 200 with \<open>d\<close>, its executor succeeding at time \<open>t1\<close>, is followed by a
  second call with the same task, the same first 100 characters of content and the same
  first 50 characters of prompt, arriving at \<open>t2\<close> with \<open>t2 - t1\<close> below the TTL. The
  second call replies 200 with the same \<open>d\<close>, makes no upstream call and leaves the
  server as it was; the two calls together made exactly one upstream call.
\<close>

theorem cache_serves_second_call:
  assumes "cached st t0 (cacheKey r1) = None" and "ongoingRequests st (cacheKey r1) = None"
    and "POST_alone st t0 r1 fetch t1 = Some (Json200 d, st1, calls1)"
    and "task r1 = task r2"
    and "js_slice 100 (content r1) = js_slice 100 (content r2)"
    and "js_slice 50 (prompt r1) = js_slice 50 (prompt r2)"
    and "t2 - t1 < CACHE_TTL"
  shows "POST_alone st1 t2 r2 fetch2 t3 = Some (Json200 d, st1, []) \<and> length (calls1 @ []) = 1"
proof (cases "selectParams r1")
  case (Inl e)
  with assms(3) show ?thesis
    by (simp add: fresh_call [OF assms(1,2)] error_response_def)
next
  case (Inr ps)
  define res where "res = fst (callUpstream fetch ps)"
  have key: "cacheKey r2 = cacheKey r1"
    by (rule cacheKey_agree [symmetric]) (fact assms(4-6))+
  from assms(3) Inr
  have reply: "settled_response res = Json200 d"
    and st1: "st1 = finish_request (snd (start_request st r1)) t1 (cacheKey r1)
                      (length (promises st)) res"
    and calls: "calls1 = [snd (callUpstream fetch ps)]"
    by (simp_all add: fresh_call [OF assms(1,2)] res_def)
  from reply have "res = Inr d"
    by (cases res) (simp_all add: settled_response_def error_response_def)
  with st1 assms(7) have "cached st1 t2 (cacheKey r2) = Some d"
    by (simp add: key cached_after_success)
  then have "POST_alone st1 t2 r2 fetch2 t3 = Some (Json200 d, st1, [])"
    by (rule cache_hit)
  with calls show ?thesis by simp
qed

text \<open>
  C5 at two requests whose contents differ only after their first 100 characters, the
  second arriving one millisecond before the entry expires.
\<close>

theorem cache_serves_second_call_witness:
  "cached empty_server 0 (cacheKey first_request) = None \<and>
   ongoingRequests empty_server (cacheKey first_request) = None \<and>
   POST_alone empty_server 0 first_request always_answers 1000 =
     Some (Json200 answer,
           finish_request (snd (start_request empty_server first_request)) 1000
             (cacheKey first_request) 0 (Inr answer),
           [[Fetch first_params]]) \<and>
   task first_request = task second_request \<and>
   content first_request \<noteq> content second_request \<and>
   js_slice 100 (content first_request) = js_slice 100 (content second_request) \<and>
   js_slice 50 (prompt first_request) = js_slice 50 (prompt second_request) \<and>
   (600999 :: int) - 1000 < CACHE_TTL \<and>
   POST_alone
     (finish_request (snd (start_request empty_server first_request)) 1000
        (cacheKey first_request) 0 (Inr answer))
     600999 second_request always_times_out 601000 =
     Some (Json200 answer,
           finish_request (snd (start_request empty_server first_request)) 1000
             (cacheKey first_request) 0 (Inr answer),
           [])"
proof -
  have fresh: "cached empty_server 0 (cacheKey first_request) = None"
    "ongoingRequests empty_server (cacheKey first_request) = None"
    by (simp_all add: cached_def empty_server_def)
  have run: "POST_alone empty_server 0 first_request always_answers 1000 =
     Some (Json200 answer,
           finish_request (snd (start_request empty_server first_request)) 1000
             (cacheKey first_request) 0 (Inr answer),
           [[Fetch first_params]])"
    by (simp add: fresh_call [OF fresh] selectParams_first run_always_answers
        settled_response_def) (simp add: empty_server_def)
  have agree: "task first_request = task second_request"
    "js_slice 100 (content first_request) = js_slice 100 (content second_request)"
    "js_slice 50 (prompt first_request) = js_slice 50 (prompt second_request)"
    and differ: "content first_request \<noteq> content second_request"
    by (simp_all add: first_request_def second_request_def js_slice_def)
  have ttl: "(600999 :: int) - 1000 < CACHE_TTL"
    by (simp add: CACHE_TTL_def)
  from cache_serves_second_call [OF fresh run agree ttl, of always_times_out 601000]
    fresh run agree differ ttl
  show ?thesis by simp
qed

text \<open>
  Claim C1 as stated fails: a waiter whose shared call was rejected with a network error
  issues its own fetch and replies 200.
\<close>

theorem waiter_retries_counterexample:
  "cached busy_server 0 (cacheKey sample_request) = None \<and>
   POST_begin busy_server 0 sample_request = (AwaitShared 0, busy_server) \<and>
   reply_of (POST_finish sample_request always_answers 9
     (POST_after_wait
        (finish_request busy_server 5 (cacheKey sample_request) 0 (Inl (NetworkError ''socket hang up'')))
        sample_request (Inl (NetworkError ''socket hang up'')))) = Some (Json200 answer) \<and>
   calls_of (POST_finish sample_request always_answers 9
     (POST_after_wait
        (finish_request busy_server 5 (cacheKey sample_request) 0 (Inl (NetworkError ''socket hang up'')))
        sample_request (Inl (NetworkError ''socket hang up'')))) = [[Fetch sample_params]]"
  by (simp add: cached_def busy_server_def cacheKey_sample POST_begin_def POST_after_wait_def
      start_request_def selectParams_sample POST_finish_def run_always_answers
      settled_response_def reply_of_def calls_of_def Let_def)

text \<open>
  Claim C1, as amended. A request that finds no live cache entry and an in-flight entry
  for its key waits for the shared promise. When that promise is resolved the waiter
  replies with its result and changes nothing. When it is rejected, with whatever error
  \<open>e\<close>, a waiter with a recognised task creates a new pending promise, stores it under
  the key, and makes an upstream call of its own, whose outcome alone decides its reply.
\<close>

theorem waiter_starts_anew:
  assumes "cached st now (cacheKey req) = None" and "ongoingRequests st (cacheKey req) = Some pid"
  shows "POST_begin st now req = (AwaitShared pid, st) \<and>
    POST_after_wait st' req (Inr result) = (Respond (Json200 result), st') \<and>
    (selectParams req = Inr ps \<longrightarrow>
       fst (POST_after_wait st' req (Inl e)) = AwaitOwn (length (promises st')) ps \<and>
       ongoingRequests (snd (POST_after_wait st' req (Inl e))) (cacheKey req) =
         Some (length (promises st')) \<and>
       promises (snd (POST_after_wait st' req (Inl e))) ! length (promises st') = Pending \<and>
       reply_of (POST_finish req fetch now' (POST_after_wait st' req (Inl e))) =
         Some (settled_response (fst (callUpstream fetch ps))) \<and>
       calls_of (POST_finish req fetch now' (POST_after_wait st' req (Inl e))) =
         [snd (callUpstream fetch ps)])"
  using assms
  by (simp add: POST_begin_def POST_after_wait_def start_request_def POST_finish_def
      reply_of_def calls_of_def Let_def split: prod.splits)

text \<open>
  The amended C1 at a waiter for the sample key whose shared call fails.
\<close>

theorem waiter_starts_anew_witness:
  "cached busy_server 0 (cacheKey sample_request) = None \<and>
   ongoingRequests busy_server (cacheKey sample_request) = Some 0 \<and>
   POST_begin busy_server 0 sample_request = (AwaitShared 0, busy_server) \<and>
   selectParams sample_request = Inr sample_params \<and>
   fst (POST_after_wait busy_server sample_request (Inl AttemptsExhausted)) =
     AwaitOwn 1 sample_params \<and>
   reply_of (POST_finish sample_request always_answers 9
     (POST_after_wait busy_server sample_request (Inl AttemptsExhausted))) = Some (Json200 answer) \<and>
   calls_of (POST_finish sample_request always_answers 9
     (POST_after_wait busy_server sample_request (Inl AttemptsExhausted))) =
     [[Fetch sample_params]]"
proof -
  have h: "cached busy_server 0 (cacheKey sample_request) = None"
    "ongoingRequests busy_server (cacheKey sample_request) = Some 0"
    by (simp_all add: cached_def busy_server_def cacheKey_sample)
  have l: "length (promises busy_server) = 1"
    by (simp add: busy_server_def)
  from waiter_starts_anew [OF h, of busy_server JNull sample_params AttemptsExhausted
      always_answers 9] h l selectParams_sample
  show ?thesis
    by (simp add: run_always_answers settled_response_def)
qed

text \<open>
  For a recognised task the entry is gone once the executor has settled, whatever the
  outcome.
\<close>

lemma known_task_leaves_no_entry:
  assumes "cached st now (cacheKey req) = None" and "ongoingRequests st (cacheKey req) = None"
    and "selectParams req = Inr ps"
    and "POST_alone st now req fetch now' = Some (r, st', calls)"
  shows "ongoingRequests st' (cacheKey req) = None"
  using assms(3,4) by (auto simp add: fresh_call [OF assms(1,2)] entry_removed_on_settle)

text \<open>
  Claim C2 at a request with an unknown task, on a server with empty maps: the promise is
  rejected and the handler has replied, yet the key is still in \<open>ongoingRequests\<close>,
  bound to the rejected promise, and the next request with this key waits for that
  promise. The \<^verbatim>\<open>finally\<close> block ran before line 209 stored the promise.
\<close>

theorem invalid_task_entry_stays:
  "POST_alone empty_server 0 bogus_request always_answers 1 =
     Some (Json500 ''[object Object]'', snd (start_request empty_server bogus_request), []) \<and>
   ongoingRequests (snd (start_request empty_server bogus_request)) (cacheKey bogus_request) =
     Some 0 \<and>
   promises (snd (start_request empty_server bogus_request)) = [Rejected InvalidTask] \<and>
   fst (POST_begin (snd (start_request empty_server bogus_request)) 2 bogus_request) =
     AwaitShared 0"
  by (simp add: POST_alone_def POST_begin_def cached_def empty_server_def POST_finish_def
      start_request_def selectParams_bogus error_response_def)

end
